theory Spec2Isabelle
  imports Complex_Main "HOL-Library.Word" "HOL-Library.Sublist"
begin

section \<open>JavaScript strings\<close>

text \<open>
  A JavaScript string is a sequence of UTF-16 code units. Paths, file contents, patterns
  and messages of the server are all such strings. \<open>js\<close> turns a literal of this theory
  (8-bit characters) into the JavaScript string with the same code units.
\<close>

type_synonym jsstring = "16 word list"

definition js :: "string \<Rightarrow> jsstring" where
  "js s = map (\<lambda>c. of_nat (of_char c)) s"

definition slash :: "16 word" where
  "slash = 0x2F"

text \<open>\<open>x || d\<close> on a string that may be absent: \<open>undefined\<close> and \<open>''\<close> are falsy.\<close>

definition or_default :: "jsstring option \<Rightarrow> jsstring \<Rightarrow> jsstring" where
  "or_default v d = (case v of None \<Rightarrow> d | Some s \<Rightarrow> if s = [] then d else s)"

text \<open>\<open>!x\<close> on a string that may be absent.\<close>

definition falsy :: "jsstring option \<Rightarrow> bool" where
  "falsy v = (case v of None \<Rightarrow> True | Some s \<Rightarrow> s = [])"

section \<open>Node's POSIX path module\<close>

text \<open>
  The server imports \<open>path\<close> from Node. \<open>path.resolve\<close> walks its arguments from the right
  until it has met an absolute one (falling back to the working directory), skipping empty
  arguments and gluing the others with \<open>/\<close>; then it normalises: empty and \<open>.\<close> segments
  vanish, \<open>..\<close> removes the segment before it, and at the root of an absolute path \<open>..\<close>
  is dropped. The segment-wise functions below do what Node's character loop does.
\<close>

fun split_on :: "'a \<Rightarrow> 'a list \<Rightarrow> 'a list list" where
  "split_on d [] = [[]]"
| "split_on d (x # xs) =
     (if x = d then [] # split_on d xs
      else (case split_on d xs of [] \<Rightarrow> [[x]] | s # ss \<Rightarrow> (x # s) # ss))"

fun join_with :: "'a \<Rightarrow> 'a list list \<Rightarrow> 'a list" where
  "join_with d [] = []"
| "join_with d [s] = s"
| "join_with d (s # t # ss) = s @ d # join_with d (t # ss)"

fun norm_segs :: "bool \<Rightarrow> jsstring list \<Rightarrow> jsstring list \<Rightarrow> jsstring list" where
  "norm_segs allowAboveRoot [] acc = rev acc"
| "norm_segs allowAboveRoot (s # ss) acc =
     (if s = [] \<or> s = js ''.'' then norm_segs allowAboveRoot ss acc
      else if s = js ''..'' then
        (case acc of
           [] \<Rightarrow> norm_segs allowAboveRoot ss (if allowAboveRoot then [s] else [])
         | t # ts \<Rightarrow>
             if t = js ''..''
             then norm_segs allowAboveRoot ss (if allowAboveRoot then s # acc else acc)
             else norm_segs allowAboveRoot ss ts)
      else norm_segs allowAboveRoot ss (s # acc))"

definition normalizeString :: "jsstring \<Rightarrow> bool \<Rightarrow> jsstring" where
  "normalizeString p allowAboveRoot = join_with slash (norm_segs allowAboveRoot (split_on slash p) [])"

fun resolve_loop :: "jsstring list \<Rightarrow> jsstring \<Rightarrow> jsstring \<times> bool" where
  "resolve_loop [] resolvedPath = (resolvedPath, False)"
| "resolve_loop (p # ps) resolvedPath =
     (if p = [] then resolve_loop ps resolvedPath
      else if hd p = slash then (p @ slash # resolvedPath, True)
      else resolve_loop ps (p @ slash # resolvedPath))"

text \<open>\<open>path.resolve(...args)\<close> in a process whose working directory is \<open>cwd\<close>.\<close>

definition path_resolve :: "jsstring \<Rightarrow> jsstring list \<Rightarrow> jsstring" where
  "path_resolve cwd args =
     (case resolve_loop (rev args @ [cwd]) [] of
        (resolvedPath, resolvedAbsolute) \<Rightarrow>
          (let n = normalizeString resolvedPath (\<not> resolvedAbsolute)
           in if resolvedAbsolute then slash # n
              else if n \<noteq> [] then n else js ''.''))"

section \<open>Configuration and the path guard\<close>

record process_env =
  cwd :: jsstring
  env_WORKSPACE_ROOT :: "jsstring option"

text \<open>\<open>const WORKSPACE_ROOT = path.resolve(process.env.WORKSPACE_ROOT || process.cwd())\<close>\<close>

definition WORKSPACE_ROOT :: "process_env \<Rightarrow> jsstring" where
  "WORKSPACE_ROOT pe = path_resolve (cwd pe) [or_default (env_WORKSPACE_ROOT pe) (cwd pe)]"

text \<open>
  What can be thrown: the error of the path guard, a system error of Node (its code, the
  system call that failed and, when Node names it, the path), the syntax error of the
  regular-expression engine and an error of another library, each with its message.
\<close>

datatype errno = ENOENT | EISDIR | ENOTDIR | EEXIST

datatype error =
    PathEscape
  | SystemError errno string "jsstring option"
  | SyntaxError jsstring
  | LibError jsstring

text \<open>
  \<open>resolveSafe\<close>: the resolved path is compared with the root by \<open>String.startsWith\<close>,
  a comparison of code units.
\<close>

definition resolveSafe :: "process_env \<Rightarrow> jsstring option \<Rightarrow> error + jsstring" where
  "resolveSafe pe relPath =
     (let full = path_resolve (cwd pe) [WORKSPACE_ROOT pe, or_default relPath (js ''.'')]
      in if \<not> prefix (WORKSPACE_ROOT pe) full then Inl PathEscape else Inr full)"

text \<open>
  What the specification means by a path lying within the root: the segments of the root
  are the first segments of the path.
\<close>

definition segments :: "jsstring \<Rightarrow> jsstring list" where
  "segments p = filter (\<lambda>s. s \<noteq> []) (split_on slash p)"

definition within_root :: "jsstring \<Rightarrow> jsstring \<Rightarrow> bool" where
  "within_root r p = prefix (segments r) (segments p)"

section \<open>Values returned to the client\<close>

text \<open>
  The functions of the server return object literals that \<open>res.json\<close> serialises. They are
  kept as such: an object is the list of its keys and values in the order of the literal.
\<close>

datatype json =
    JUndef
  | JNull
  | JBool bool
  | JNum int
  | JStr jsstring
  | JArr "json list"
  | JObj "(string \<times> json) list"

definition field :: "json \<Rightarrow> string \<Rightarrow> json" where
  "field v k = (case v of JObj kvs \<Rightarrow> (case map_of kvs k of Some x \<Rightarrow> x | None \<Rightarrow> JUndef) | _ \<Rightarrow> JUndef)"

section \<open>Byte lengths and slices\<close>

text \<open>
  \<open>Buffer.byteLength(s, 'utf8')\<close>: one byte for a code unit below \<open>0x80\<close>, two below
  \<open>0x800\<close>, four for a surrogate pair and three for anything else (a lone surrogate is
  encoded as U+FFFD).
\<close>

definition unit_bytes :: "16 word \<Rightarrow> nat" where
  "unit_bytes c = (if c < 0x80 then 1 else if c < 0x800 then 2 else 3)"

definition high_surrogate :: "16 word \<Rightarrow> bool" where
  "high_surrogate c = (0xD800 \<le> c \<and> c \<le> 0xDBFF)"

definition low_surrogate :: "16 word \<Rightarrow> bool" where
  "low_surrogate c = (0xDC00 \<le> c \<and> c \<le> 0xDFFF)"

fun byteLength :: "jsstring \<Rightarrow> nat" where
  "byteLength [] = 0"
| "byteLength [c] = unit_bytes c"
| "byteLength (c # d # cs) =
     (if high_surrogate c \<and> low_surrogate d then 4 + byteLength cs
      else unit_bytes c + byteLength (d # cs))"

text \<open>
  \<open>s.slice(0, e)\<close> for an integer \<open>e\<close>: it counts code units, and a negative \<open>e\<close>
  counts from the end.
\<close>

definition slice0 :: "'a list \<Rightarrow> int \<Rightarrow> 'a list" where
  "slice0 xs e = (if e < 0 then take (nat (int (length xs) + e)) xs else take (nat e) xs)"

section \<open>The file system\<close>

text \<open>
  The workspace on disk: what is found at each absolute path. Files are text files, held
  as the string that \<open>fs.readFileSync(p, 'utf8')\<close> returns for them.
\<close>

datatype node = File jsstring | Dir

type_synonym filesystem = "jsstring \<Rightarrow> node option"

definition existsSync :: "filesystem \<Rightarrow> jsstring \<Rightarrow> bool" where
  "existsSync fs p = (fs p \<noteq> None)"

text \<open>The directories above an absolute path and the path itself, from the root down.\<close>

definition ancestors :: "jsstring \<Rightarrow> jsstring list" where
  "ancestors d =
     map (\<lambda>k. slash # join_with slash (take k (segments d))) [0 ..< Suc (length (segments d))]"

definition below_file :: "filesystem \<Rightarrow> jsstring \<Rightarrow> bool" where
  "below_file fs p =
     list_ex (\<lambda>a. case fs a of Some (File x) \<Rightarrow> True | _ \<Rightarrow> False) (butlast (ancestors p))"

text \<open>
  \<open>fs.readFileSync(p, 'utf8')\<close>: opening a path that does not exist throws \<open>ENOENT\<close>,
  or \<open>ENOTDIR\<close> when the path lies below a regular file; a directory opens and the
  read throws \<open>EISDIR\<close>.
\<close>

definition readFileSync :: "filesystem \<Rightarrow> jsstring \<Rightarrow> error + jsstring" where
  "readFileSync fs p =
     (case fs p of
        None \<Rightarrow> Inl (SystemError (if below_file fs p then ENOTDIR else ENOENT) ''open'' (Some p))
      | Some Dir \<Rightarrow> Inl (SystemError EISDIR ''read'' None)
      | Some (File d) \<Rightarrow> Inr d)"

section \<open>Reading a file\<close>

text \<open>
  \<open>readFile(relPath, opts)\<close>. \<open>opts.maxBytes || 200_000\<close> takes the default for an absent
  and for a zero \<open>maxBytes\<close>.
\<close>

definition maxBytes_of :: "int option \<Rightarrow> int" where
  "maxBytes_of m = (case m of None \<Rightarrow> 200000 | Some n \<Rightarrow> if n = 0 then 200000 else n)"

definition readFile :: "process_env \<Rightarrow> filesystem \<Rightarrow> jsstring option \<Rightarrow> int option \<Rightarrow> error + json" where
  "readFile pe fs relPath opts_maxBytes =
     (case resolveSafe pe relPath of
        Inl e \<Rightarrow> Inl e
      | Inr p \<Rightarrow>
          (let maxBytes = maxBytes_of opts_maxBytes in
           case readFileSync fs p of
             Inl e \<Rightarrow> Inl e
           | Inr data \<Rightarrow>
               if int (byteLength data) > maxBytes
               then Inr (JObj [(''truncated'', JBool True),
                               (''content'', JStr (slice0 data maxBytes)),
                               (''totalBytes'', JNum (int (byteLength data)))])
               else Inr (JObj [(''truncated'', JBool False),
                               (''content'', JStr data),
                               (''totalBytes'', JNum (int (byteLength data)))])))"

section \<open>Libraries the server calls\<close>

text \<open>
  The diff library (\<open>createTwoFilesPatch\<close>, \<open>applyPatch\<close>), the glob library
  (\<open>fg.sync\<close>), the regular-expression engine and the directory-reading calls of Node are
  not part of the server. They are taken as they are called: \<open>applyPatch\<close> throws on a
  patch it cannot parse, returns \<open>false\<close> (here \<open>None\<close>) when the patch does not apply to
  the text, and the patched text otherwise; \<open>new RegExp(pattern, 'i')\<close> throws on a
  pattern that is not a regular expression, a syntax error with the message of the engine
  (\<open>regexp_error\<close>).
\<close>

record dirent =
  dirent_name :: jsstring
  isDirectory :: bool

record libs =
  createTwoFilesPatch ::
    "jsstring \<Rightarrow> jsstring \<Rightarrow> jsstring \<Rightarrow> jsstring \<Rightarrow> jsstring \<Rightarrow> jsstring \<Rightarrow> jsstring"
  applyPatch :: "jsstring \<Rightarrow> jsstring \<Rightarrow> error + jsstring option"
  fg_sync :: "filesystem \<Rightarrow> jsstring list \<Rightarrow> jsstring \<Rightarrow> jsstring list \<Rightarrow> error + jsstring list"
  regexp_valid :: "jsstring \<Rightarrow> bool"
  regexp_error :: "jsstring \<Rightarrow> jsstring"
  regexp_test :: "jsstring \<Rightarrow> jsstring \<Rightarrow> bool"
  readdirSync :: "filesystem \<Rightarrow> jsstring \<Rightarrow> error + dirent list"
  statSync_size :: "filesystem \<Rightarrow> jsstring \<Rightarrow> error + int"

section \<open>Writing to the file system\<close>

text \<open>
  \<open>path.dirname\<close>: the text before the last \<open>/\<close> that is followed by a name, looking
  from the end and never at the first character.
\<close>

fun dirname_scan :: "jsstring \<Rightarrow> nat \<Rightarrow> bool \<Rightarrow> nat option" where
  "dirname_scan p 0 matchedSlash = None"
| "dirname_scan p (Suc i) matchedSlash =
     (if p ! Suc i = slash
      then (if \<not> matchedSlash then Some (Suc i) else dirname_scan p i matchedSlash)
      else dirname_scan p i False)"

definition path_dirname :: "jsstring \<Rightarrow> jsstring" where
  "path_dirname p =
     (if p = [] then js ''.''
      else (case dirname_scan p (length p - 1) True of
              None \<Rightarrow> if hd p = slash then js ''/'' else js ''.''
            | Some e \<Rightarrow> if hd p = slash \<and> e = 1 then js ''//'' else take e p))"

text \<open>
  \<open>fs.mkdirSync(d, { recursive: true })\<close> makes \<open>d\<close> and every missing directory above
  it, and throws when one of them is a file: \<open>EEXIST\<close> when \<open>d\<close> itself is the file,
  \<open>ENOTDIR\<close> when the file is above it, both naming \<open>d\<close>. Nothing is made when it
  throws.
\<close>

fun mkdirs :: "jsstring \<Rightarrow> filesystem \<Rightarrow> jsstring list \<Rightarrow> error + filesystem" where
  "mkdirs target fs [] = Inr fs"
| "mkdirs target fs (d # ds) =
     (case fs d of
        Some (File x) \<Rightarrow> Inl (SystemError (if ds = [] then EEXIST else ENOTDIR) ''mkdir'' (Some target))
      | _ \<Rightarrow> mkdirs target (fs(d \<mapsto> Dir)) ds)"

definition mkdirSync_recursive :: "filesystem \<Rightarrow> jsstring \<Rightarrow> error + filesystem" where
  "mkdirSync_recursive fs d = mkdirs d fs (ancestors d)"

text \<open>
  \<open>fs.writeFileSync(p, data, 'utf8')\<close> replaces or creates the file \<open>p\<close>; it throws when
  \<open>p\<close> is a directory or the directory of \<open>p\<close> is missing.
\<close>

definition writeFileSync :: "filesystem \<Rightarrow> jsstring \<Rightarrow> jsstring \<Rightarrow> error + filesystem" where
  "writeFileSync fs p data =
     (case fs p of
        Some Dir \<Rightarrow> Inl (SystemError EISDIR ''open'' (Some p))
      | _ \<Rightarrow>
          (case fs (path_dirname p) of
             None \<Rightarrow> Inl (SystemError ENOENT ''open'' (Some p))
           | Some (File x) \<Rightarrow> Inl (SystemError ENOTDIR ''open'' (Some p))
           | Some Dir \<Rightarrow> Inr (fs(p \<mapsto> File data))))"

section \<open>The two mutating tools\<close>

text \<open>
  Both return what they return together with the file system they leave behind; a thrown
  error is \<open>Inl\<close>. \<open>before\<close> is the text of the file, or the empty string when nothing
  exists at the path.
\<close>

definition read_before :: "filesystem \<Rightarrow> jsstring \<Rightarrow> error + jsstring" where
  "read_before fs p = (if existsSync fs p then readFileSync fs p else Inr [])"

definition writeFile ::
  "libs \<Rightarrow> process_env \<Rightarrow> filesystem \<Rightarrow> jsstring \<Rightarrow> jsstring \<Rightarrow> bool \<Rightarrow> (error + json) \<times> filesystem" where
  "writeFile L pe fs relPath content approve =
     (case resolveSafe pe (Some relPath) of
        Inl e \<Rightarrow> (Inl e, fs)
      | Inr p \<Rightarrow>
          (case read_before fs p of
             Inl e \<Rightarrow> (Inl e, fs)
           | Inr before \<Rightarrow>
               (let patch = createTwoFilesPatch L relPath relPath before content (js ''before'') (js ''after'')
                in if \<not> approve
                   then (Inr (JObj [(''dryRun'', JBool True), (''diff'', JStr patch),
                                    (''message'', JStr (js ''Dry-run only. Set approve=true to apply.''))]),
                         fs)
                   else (case mkdirSync_recursive fs (path_dirname p) of
                           Inl e \<Rightarrow> (Inl e, fs)
                         | Inr fs1 \<Rightarrow>
                             (case writeFileSync fs1 p content of
                                Inl e \<Rightarrow> (Inl e, fs1)
                              | Inr fs2 \<Rightarrow>
                                  (Inr (JObj [(''dryRun'', JBool False), (''applied'', JBool True),
                                              (''bytes'', JNum (int (byteLength content)))]),
                                   fs2))))))"

definition applyUnifiedPatch ::
  "libs \<Rightarrow> process_env \<Rightarrow> filesystem \<Rightarrow> jsstring \<Rightarrow> jsstring \<Rightarrow> bool \<Rightarrow> (error + json) \<times> filesystem" where
  "applyUnifiedPatch L pe fs relPath unified approve =
     (case resolveSafe pe (Some relPath) of
        Inl e \<Rightarrow> (Inl e, fs)
      | Inr p \<Rightarrow>
          (case read_before fs p of
             Inl e \<Rightarrow> (Inl e, fs)
           | Inr before \<Rightarrow>
               (case applyPatch L before unified of
                  Inl e \<Rightarrow> (Inl e, fs)
                | Inr result \<Rightarrow>
                    if \<not> approve
                    then (Inr (JObj [(''dryRun'', JBool True), (''canApply'', JBool (result \<noteq> None)),
                                     (''preview'', (case result of Some r \<Rightarrow> JStr r | None \<Rightarrow> JNull))]),
                          fs)
                    else (case result of
                            None \<Rightarrow>
                              (Inr (JObj [(''dryRun'', JBool False), (''applied'', JBool False),
                                          (''error'', JStr (js ''Failed to apply patch.''))]),
                               fs)
                          | Some r \<Rightarrow>
                              (case mkdirSync_recursive fs (path_dirname p) of
                                 Inl e \<Rightarrow> (Inl e, fs)
                               | Inr fs1 \<Rightarrow>
                                   (case writeFileSync fs1 p r of
                                      Inl e \<Rightarrow> (Inl e, fs1)
                                    | Inr fs2 \<Rightarrow>
                                        (Inr (JObj [(''dryRun'', JBool False), (''applied'', JBool True)]),
                                         fs2)))))))"

section \<open>Listing and searching\<close>

definition DEFAULT_IGNORES :: "jsstring list" where
  "DEFAULT_IGNORES = [js ''.git'', js ''node_modules'', js ''dist'', js ''build'', js ''.next'',
                      js ''out'', js ''.venv'', js ''__pycache__'']"

text \<open>\<open>DEFAULT_IGNORES.map(i => `**/${i}/**`)\<close>\<close>

definition ignore_globs :: "jsstring list" where
  "ignore_globs = map (\<lambda>i. js ''**/'' @ i @ js ''/**'') DEFAULT_IGNORES"

text \<open>
  \<open>path.normalize\<close> and \<open>path.join\<close>: the non-empty arguments glued with \<open>/\<close> and
  normalised, a trailing \<open>/\<close> kept.
\<close>

definition path_normalize :: "jsstring \<Rightarrow> jsstring" where
  "path_normalize p =
     (if p = [] then js ''.''
      else (let isAbsolute = (hd p = slash);
                trailingSeparator = (last p = slash);
                n = normalizeString p (\<not> isAbsolute)
            in if n = [] then (if isAbsolute then js ''/'' else if trailingSeparator then js ''./'' else js ''.'')
               else (if isAbsolute then [slash] else []) @ n @ (if trailingSeparator then [slash] else [])))"

definition path_join :: "jsstring list \<Rightarrow> jsstring" where
  "path_join args =
     (let joined = join_with slash (filter (\<lambda>a. a \<noteq> []) args)
      in if joined = [] then js ''.'' else path_normalize joined)"

text \<open>
  \<open>path.relative(from, to)\<close>: both are resolved, their common leading segments dropped,
  and one \<open>..\<close> is written for each segment left of \<open>from\<close>.
\<close>

fun drop_common :: "'a list \<Rightarrow> 'a list \<Rightarrow> 'a list \<times> 'a list" where
  "drop_common (x # xs) (y # ys) = (if x = y then drop_common xs ys else (x # xs, y # ys))"
| "drop_common xs ys = (xs, ys)"

definition path_relative :: "jsstring \<Rightarrow> jsstring \<Rightarrow> jsstring \<Rightarrow> jsstring" where
  "path_relative wd from to =
     (case drop_common (segments (path_resolve wd [from])) (segments (path_resolve wd [to])) of
        (rf, rt) \<Rightarrow> join_with slash (map (\<lambda>s. js ''..'') rf @ rt))"

text \<open>A \<open>map\<close> whose function may throw stops at the first error.\<close>

fun map_throwing :: "('a \<Rightarrow> error + 'b) \<Rightarrow> 'a list \<Rightarrow> error + 'b list" where
  "map_throwing f [] = Inr []"
| "map_throwing f (x # xs) =
     (case f x of
        Inl e \<Rightarrow> Inl e
      | Inr y \<Rightarrow> (case map_throwing f xs of Inl e \<Rightarrow> Inl e | Inr ys \<Rightarrow> Inr (y # ys)))"

definition listDir :: "libs \<Rightarrow> process_env \<Rightarrow> filesystem \<Rightarrow> jsstring option \<Rightarrow> error + json" where
  "listDir L pe fs relPath =
     (case resolveSafe pe relPath of
        Inl e \<Rightarrow> Inl e
      | Inr dir \<Rightarrow>
          (case readdirSync L fs dir of
             Inl e \<Rightarrow> Inl e
           | Inr entries \<Rightarrow>
               (case map_throwing
                       (\<lambda>e. case statSync_size L fs (path_join [dir, dirent_name e]) of
                               Inl err \<Rightarrow> Inl err
                             | Inr sz \<Rightarrow>
                                 Inr (JObj [(''name'', JStr (dirent_name e)),
                                            (''type'', JStr (if isDirectory e then js ''dir'' else js ''file'')),
                                            (''size'', if isDirectory e then JUndef else JNum sz)]))
                       (filter (\<lambda>e. dirent_name e \<notin> set DEFAULT_IGNORES) entries) of
                  Inl e \<Rightarrow> Inl e
                | Inr xs \<Rightarrow> Inr (JArr xs))))"

definition globSearch :: "libs \<Rightarrow> process_env \<Rightarrow> filesystem \<Rightarrow> jsstring \<Rightarrow> jsstring option \<Rightarrow> error + json" where
  "globSearch L pe fs pattern cwdRel =
     (case resolveSafe pe cwdRel of
        Inl e \<Rightarrow> Inl e
      | Inr wd \<Rightarrow>
          (case fg_sync L fs [pattern] wd ignore_globs of
             Inl e \<Rightarrow> Inl e
           | Inr files \<Rightarrow> Inr (JArr (map JStr files))))"

text \<open>\<open>data.split(/\r?\n/)\<close>: a line ends at a line feed, and a carriage return just before it goes too.\<close>

definition strip_cr :: "jsstring \<Rightarrow> jsstring" where
  "strip_cr l = (if l \<noteq> [] \<and> last l = 0x0D then butlast l else l)"

definition split_lines :: "jsstring \<Rightarrow> jsstring list" where
  "split_lines data =
     (let ls = split_on (0x0A :: 16 word) data in map strip_cr (butlast ls) @ [last ls])"

text \<open>
  The records \<open>lines.forEach\<close> pushes for one file: one for each line the expression
  matches, with its number counted from one.
\<close>

definition file_matches :: "libs \<Rightarrow> process_env \<Rightarrow> jsstring \<Rightarrow> jsstring \<Rightarrow> jsstring \<Rightarrow> json list" where
  "file_matches L pe pattern full data =
     map (\<lambda>(idx, line). JObj [(''file'', JStr (path_relative (cwd pe) (WORKSPACE_ROOT pe) full)),
                              (''line'', JNum (int idx + 1)),
                              (''text'', JStr line)])
         (filter (\<lambda>(idx, line). regexp_test L pattern line) (enumerate 0 (split_lines data)))"

text \<open>
  The loop over the files of \<open>grep\<close>. A file that cannot be read throws inside the
  \<open>try\<close> and the loop goes on with the next one; after a file that was read, the loop
  stops when \<open>out\<close> has reached \<open>maxMatches\<close>.
\<close>

fun grep_loop ::
  "libs \<Rightarrow> process_env \<Rightarrow> filesystem \<Rightarrow> jsstring \<Rightarrow> jsstring \<Rightarrow> int \<Rightarrow> jsstring list \<Rightarrow> json list \<Rightarrow> json list" where
  "grep_loop L pe fs pattern wd maxMatches [] out = out"
| "grep_loop L pe fs pattern wd maxMatches (f # files) out =
     (case readFileSync fs (path_join [wd, f]) of
        Inl e \<Rightarrow> grep_loop L pe fs pattern wd maxMatches files out
      | Inr data \<Rightarrow>
          (let out' = out @ file_matches L pe pattern (path_join [wd, f]) data
           in if int (length out') \<ge> maxMatches then out'
              else grep_loop L pe fs pattern wd maxMatches files out'))"

definition grep ::
  "libs \<Rightarrow> process_env \<Rightarrow> filesystem \<Rightarrow> jsstring \<Rightarrow> jsstring option \<Rightarrow> int option \<Rightarrow> error + json" where
  "grep L pe fs pattern cwdRel opt_maxMatches =
     (let maxMatches = (case opt_maxMatches of None \<Rightarrow> 200 | Some n \<Rightarrow> n) in
      case resolveSafe pe cwdRel of
        Inl e \<Rightarrow> Inl e
      | Inr wd \<Rightarrow>
          if \<not> regexp_valid L pattern then Inl (SyntaxError (regexp_error L pattern))
          else (case fg_sync L fs [js ''**/*.*''] wd ignore_globs of
                  Inl e \<Rightarrow> Inl e
                | Inr files \<Rightarrow>
                    Inr (JArr (slice0 (grep_loop L pe fs pattern wd maxMatches files []) maxMatches))))"

section \<open>The tool dispatcher\<close>

text \<open>
  A request body of the documented shape: the tool name and the arguments, each of which
  may be absent. \<open>String(err?.message || err)\<close> is the text of a thrown error.
\<close>

record tool_args =
  arg_path :: "jsstring option"
  arg_content :: "jsstring option"
  arg_approve :: "bool option"
  arg_diff :: "jsstring option"
  arg_pattern :: "jsstring option"
  arg_cwd :: "jsstring option"
  arg_maxBytes :: "int option"
  arg_maxMatches :: "int option"

record tool_request =
  req_name :: "jsstring option"
  req_args :: tool_args

record response =
  status :: nat
  body :: json

fun errno_text :: "errno \<Rightarrow> jsstring" where
  "errno_text ENOENT = js ''ENOENT: no such file or directory''"
| "errno_text EISDIR = js ''EISDIR: illegal operation on a directory''"
| "errno_text ENOTDIR = js ''ENOTDIR: not a directory''"
| "errno_text EEXIST = js ''EEXIST: file already exists''"

fun message :: "error \<Rightarrow> jsstring" where
  "message PathEscape = js ''Path escapes workspace root''"
| "message (SystemError code syscall path) =
     errno_text code @ js '', '' @ js syscall
     @ (case path of None \<Rightarrow> [] | Some p \<Rightarrow> js '' '' @ [0x27] @ p @ [0x27])"
| "message (SyntaxError m) = (if m = [] then js ''SyntaxError'' else m)"
| "message (LibError m) = (if m = [] then js ''Error'' else m)"

definition bad_request :: "jsstring \<Rightarrow> response" where
  "bad_request m = \<lparr>status = 400, body = JObj [(''error'', JStr m)]\<rparr>"

text \<open>
  \<open>res.json({ ok: true, result: ... })\<close> when the tool returns, and the \<open>catch\<close> of the
  handler when it throws.
\<close>

definition respond :: "error + json \<Rightarrow> response" where
  "respond r =
     (case r of
        Inr v \<Rightarrow> \<lparr>status = 200, body = JObj [(''ok'', JBool True), (''result'', v)]\<rparr>
      | Inl e \<Rightarrow> \<lparr>status = 500, body = JObj [(''error'', JStr (message e))]\<rparr>)"

definition approve_of :: "bool option \<Rightarrow> bool" where
  "approve_of a = (case a of None \<Rightarrow> False | Some b \<Rightarrow> b)"

definition tools :: "libs \<Rightarrow> process_env \<Rightarrow> filesystem \<Rightarrow> tool_request \<Rightarrow> response \<times> filesystem" where
  "tools L pe fs req =
     (let args = req_args req in
      case req_name req of
        None \<Rightarrow> (bad_request (js ''Tool name required''), fs)
      | Some name \<Rightarrow>
          if name = [] then (bad_request (js ''Tool name required''), fs)
          else if name = js ''list_dir'' then
            (respond (listDir L pe fs (case arg_path args of None \<Rightarrow> Some (js ''.'') | Some rel \<Rightarrow> Some rel)), fs)
          else if name = js ''read_file'' then
            (if falsy (arg_path args) then (bad_request (js ''path required''), fs)
             else (respond (readFile pe fs (arg_path args) (arg_maxBytes args)), fs))
          else if name = js ''write_file'' then
            (case (arg_path args, arg_content args) of
               (Some rel, Some content) \<Rightarrow>
                 if rel = [] then (bad_request (js ''path and content required''), fs)
                 else (case writeFile L pe fs rel content (approve_of (arg_approve args)) of
                         (r, fs') \<Rightarrow> (respond r, fs'))
             | _ \<Rightarrow> (bad_request (js ''path and content required''), fs))
          else if name = js ''apply_patch'' then
            (case (arg_path args, arg_diff args) of
               (Some rel, Some unified) \<Rightarrow>
                 if rel = [] then (bad_request (js ''path and diff required''), fs)
                 else (case applyUnifiedPatch L pe fs rel unified (approve_of (arg_approve args)) of
                         (r, fs') \<Rightarrow> (respond r, fs'))
             | _ \<Rightarrow> (bad_request (js ''path and diff required''), fs))
          else if name = js ''glob'' then
            (respond (globSearch L pe fs (case arg_pattern args of None \<Rightarrow> js ''**/*'' | Some p \<Rightarrow> p)
                        (case arg_cwd args of None \<Rightarrow> Some (js ''.'') | Some c \<Rightarrow> Some c)), fs)
          else if name = js ''grep'' then
            (case arg_pattern args of
               None \<Rightarrow> (bad_request (js ''pattern required''), fs)
             | Some pattern \<Rightarrow>
                 if pattern = [] then (bad_request (js ''pattern required''), fs)
                 else (respond (grep L pe fs pattern
                                  (case arg_cwd args of None \<Rightarrow> Some (js ''.'') | Some c \<Rightarrow> Some c)
                                  (arg_maxMatches args)), fs))
          else (bad_request (js ''Unknown tool: '' @ name), fs))"

section \<open>The workspace summary and the system prompt\<close>








section \<open>The streaming proxy\<close>

text \<open>
  The chat request, the request sent to the model backend, and what the backend streams
  back: parts that may carry a first choice, with the text of its delta and its finish
  reason, and possibly an error thrown while the stream is read.
\<close>

record chat_message =
  msg_role :: jsstring
  msg_content :: jsstring

record chat_request =
  messages :: "chat_message list option"
  req_model :: "jsstring option"
  req_temperature :: "real option"

record completion_request =
  cr_model :: jsstring
  cr_temperature :: real
  cr_stream :: bool
  cr_frequency_penalty :: "real option"
  cr_presence_penalty :: "real option"
  cr_messages :: "chat_message list"

record choice =
  delta_content :: "jsstring option"
  finish_reason :: "jsstring option"

datatype stream_item = Part "choice option" | Throws error

type_synonym backend = "completion_request \<Rightarrow> error + stream_item list"

datatype sse_event = Event string json

text \<open>
  What the client gets and what the backend was asked: the JSON response when one is sent,
  whether the event stream was opened, its events in order, and the request the backend
  stream was opened with, if it was.
\<close>

record chat_outcome =
  json_response :: "response option"
  sse_started :: bool
  sse_events :: "sse_event list"
  upstream :: "completion_request option"

text \<open>
  The \<open>for await\<close> loop: the text so far and the events so far go in; the loop ends with
  the stream, at a part with a finish reason, or with an error thrown by the stream.
\<close>

fun consume :: "stream_item list \<Rightarrow> jsstring \<Rightarrow> sse_event list \<Rightarrow> (error + jsstring) \<times> sse_event list" where
  "consume [] fullText evs = (Inr fullText, evs)"
| "consume (Throws e # rest) fullText evs = (Inl e, evs)"
| "consume (Part None # rest) fullText evs = consume rest fullText evs"
| "consume (Part (Some ch) # rest) fullText evs =
     (case (if falsy (delta_content ch) then (fullText, evs)
            else (fullText @ the (delta_content ch),
                  evs @ [Event ''token'' (JObj [(''content'', JStr (the (delta_content ch)))])])) of
        (fullText', evs') \<Rightarrow>
          if \<not> falsy (finish_reason ch) then (Inr fullText', evs')
          else consume rest fullText' evs')"

text \<open>The rest of the handler once the request to the backend is built.\<close>

definition relay :: "backend \<Rightarrow> completion_request \<Rightarrow> chat_outcome" where
  "relay client cr =
     (case client cr of
        Inl e \<Rightarrow>
          \<lparr>json_response = None, sse_started = True,
           sse_events = [Event ''error'' (JObj [(''error'', JStr (message e))])],
           upstream = Some cr\<rparr>
      | Inr stream \<Rightarrow>
          (case consume stream [] [] of
             (Inl e, evs) \<Rightarrow>
               \<lparr>json_response = None, sse_started = True,
                sse_events = evs @ [Event ''error'' (JObj [(''error'', JStr (message e))])],
                upstream = Some cr\<rparr>
           | (Inr fullText, evs) \<Rightarrow>
               \<lparr>json_response = None, sse_started = True,
                sse_events = evs @ [Event ''done'' (JObj [(''message'', JStr fullText)])],
                upstream = Some cr\<rparr>))"

text \<open>\<open>app.post('/api/chat/stream')\<close> of \<open>server/server.js\<close>.\<close>

definition chat_stream :: "backend \<Rightarrow> chat_request \<Rightarrow> chat_outcome" where
  "chat_stream client req =
     (case messages req of
        None \<Rightarrow>
          \<lparr>json_response = Some (bad_request (js ''messages must be an array'')),
           sse_started = False, sse_events = [], upstream = None\<rparr>
      | Some ms \<Rightarrow>
          relay client
            \<lparr>cr_model = (case req_model req of None \<Rightarrow> js ''gpt-4o-mini'' | Some m \<Rightarrow> m),
             cr_temperature = (case req_temperature req of None \<Rightarrow> 2 / 10 | Some t \<Rightarrow> t),
             cr_stream = True, cr_frequency_penalty = None, cr_presence_penalty = None,
             cr_messages = ms\<rparr>)"




section \<open>Notions of the specification\<close>


text \<open>
  The match records of each file, in the order the files are processed and, within a
  file, in the order of its lines; a file that cannot be read has none.
\<close>

definition file_records ::
  "libs \<Rightarrow> process_env \<Rightarrow> filesystem \<Rightarrow> jsstring \<Rightarrow> jsstring \<Rightarrow> jsstring list \<Rightarrow> json list list" where
  "file_records L pe fs pattern wd files =
     map (\<lambda>f. case readFileSync fs (path_join [wd, f]) of
                 Inl e \<Rightarrow> []
               | Inr data \<Rightarrow> file_matches L pe pattern (path_join [wd, f]) data) files"

text \<open>
  The collector of the specification: it takes the records file by file, one at a time,
  and stops as soon as it holds \<open>cap\<close> of them, in the middle of a file if need be.
\<close>

fun collect_capped :: "nat \<Rightarrow> 'a list list \<Rightarrow> 'a list \<Rightarrow> 'a list" where
  "collect_capped cap [] out = out"
| "collect_capped cap ([] # fss) out = collect_capped cap fss out"
| "collect_capped cap ((r # rs) # fss) out =
     (if length out \<ge> cap then out else collect_capped cap (rs # fss) (out @ [r]))"

text \<open>The texts of the parts that carry content, in the order of the parts.\<close>

fun texts :: "choice option list \<Rightarrow> jsstring list" where
  "texts [] = []"
| "texts (None # cs) = texts cs"
| "texts (Some ch # cs) =
     (if falsy (delta_content ch) then texts cs else the (delta_content ch) # texts cs)"

definition token :: "jsstring \<Rightarrow> sse_event" where
  "token t = Event ''token'' (JObj [(''content'', JStr t)])"

definition done_event :: "jsstring \<Rightarrow> sse_event" where
  "done_event t = Event ''done'' (JObj [(''message'', JStr t)])"

definition unfinished :: "choice option \<Rightarrow> bool" where
  "unfinished c = (case c of None \<Rightarrow> True | Some ch \<Rightarrow> falsy (finish_reason ch))"

text \<open>
  The answers of the dispatcher: \<open>{ok: true, result}\<close> with status 200, or
  \<open>{error: message}\<close> with status 400 or 500.
\<close>

definition ok_envelope :: "json \<Rightarrow> response" where
  "ok_envelope v = \<lparr>status = 200, body = JObj [(''ok'', JBool True), (''result'', v)]\<rparr>"

definition error_envelope :: "nat \<Rightarrow> jsstring \<Rightarrow> response" where
  "error_envelope st m = \<lparr>status = st, body = JObj [(''error'', JStr m)]\<rparr>"

text \<open>
  The answer owed to a delegate call: the success envelope around what it returned, or
  status 500 and the message of what it threw.
\<close>

definition delegate_envelope :: "error + json \<Rightarrow> response" where
  "delegate_envelope r =
     (case r of Inr v \<Rightarrow> ok_envelope v | Inl e \<Rightarrow> error_envelope 500 (message e))"

definition tool_names :: "jsstring list" where
  "tool_names = [js ''list_dir'', js ''read_file'', js ''write_file'', js ''apply_patch'',
                 js ''glob'', js ''grep'']"

definition envelope :: "response \<Rightarrow> bool" where
  "envelope resp =
     ((\<exists>v. resp = \<lparr>status = 200, body = JObj [(''ok'', JBool True), (''result'', v)]\<rparr>)
      \<or> (\<exists>m. resp = \<lparr>status = 400, body = JObj [(''error'', JStr m)]\<rparr>)
      \<or> (\<exists>m. resp = \<lparr>status = 500, body = JObj [(''error'', JStr m)]\<rparr>))"

section \<open>A small workspace for the examples\<close>

text \<open>
  A workspace \<open>/ws\<close> with three text files, and stand-ins for the libraries: a diff that
  writes the two header lines and then the old text after \<open>-\<close> and the new text after
  \<open>+\<close>; a patch applier that knows one patch, which replaces the line \<open>old\<close> by the line
  \<open>new\<close> and so applies to the text of \<open>b.txt\<close> and to no other text of the examples,
  and takes any other text for a patch without hunks, which changes nothing;
  a glob that finds four names under \<open>/ws\<close>, one of which is no longer on disk; regular
  expressions without special characters, which match a line that contains them, letter
  case apart, the pattern \<open>(\<close> being refused; a directory listing of \<open>/ws\<close>.
\<close>

definition nl :: jsstring where
  "nl = [0x0A]"

definition example_env :: process_env where
  "example_env = \<lparr>cwd = js ''/srv'', env_WORKSPACE_ROOT = Some (js ''/ws'')\<rparr>"

definition example_fs :: filesystem where
  "example_fs =
     [js ''/'' \<mapsto> Dir,
      js ''/ws'' \<mapsto> Dir,
      js ''/ws/a.txt'' \<mapsto> File (js ''hello'' @ nl @ js ''Hello world'' @ nl),
      js ''/ws/b.txt'' \<mapsto> File (js ''old'' @ nl),
      js ''/ws/c.txt'' \<mapsto> File (js ''say hello'' @ nl @ js ''HELLO'' @ nl @ js ''bye'')]"

definition example_patch :: jsstring where
  "example_patch = js ''--- b.txt'' @ nl @ js ''+++ b.txt'' @ nl
                   @ js ''@@ -1 +1 @@'' @ nl @ js ''-old'' @ nl @ js ''+new'' @ nl"

definition lower :: "16 word \<Rightarrow> 16 word" where
  "lower c = (if 0x41 \<le> c \<and> c \<le> 0x5A then c + 0x20 else c)"

definition example_libs :: libs where
  "example_libs =
     \<lparr>createTwoFilesPatch =
        (\<lambda>oldName newName oldStr newStr oldHeader newHeader.
           js ''--- '' @ oldName @ [0x09] @ oldHeader @ nl @ js ''+++ '' @ newName @ [0x09] @ newHeader @ nl
           @ js ''-'' @ oldStr @ js ''+'' @ newStr),
      applyPatch =
        (\<lambda>before unified.
           if unified = example_patch
           then (if before = js ''old'' @ nl then Inr (Some (js ''new'' @ nl)) else Inr None)
           else Inr (Some before)),
      fg_sync =
        (\<lambda>fs patterns wd ignored.
           if wd = js ''/ws'' \<and> patterns = [js ''**/*.*'']
           then Inr [js ''a.txt'', js ''gone.txt'', js ''b.txt'', js ''c.txt'']
           else Inr []),
      regexp_valid = (\<lambda>pattern. pattern \<noteq> js ''(''),
      regexp_error = (\<lambda>pattern. js ''Invalid regular expression: /'' @ pattern @ js ''/: Unterminated group''),
      regexp_test = (\<lambda>pattern line. sublist (map lower pattern) (map lower line)),
      readdirSync =
        (\<lambda>fs d.
           if d = js ''/ws''
           then Inr [\<lparr>dirent_name = js ''a.txt'', isDirectory = False\<rparr>,
                     \<lparr>dirent_name = js ''b.txt'', isDirectory = False\<rparr>,
                     \<lparr>dirent_name = js ''c.txt'', isDirectory = False\<rparr>,
                     \<lparr>dirent_name = js ''node_modules'', isDirectory = True\<rparr>]
           else Inl (SystemError ENOENT ''scandir'' (Some d))),
      statSync_size =
        (\<lambda>fs p. case fs p of None \<Rightarrow> Inl (SystemError ENOENT ''stat'' (Some p)) | Some Dir \<Rightarrow> Inr 4096 | Some (File d) \<Rightarrow> Inr (int (byteLength d)))\<rparr>"

text \<open>A backend that streams the three chunks of the streaming scenario (the second begins with the code unit E1, a with acute) and then the finish marker.\<close>

definition example_chunks :: "choice option list" where
  "example_chunks =
     [Some \<lparr>delta_content = Some (js ''Ol''), finish_reason = None\<rparr>,
      Some \<lparr>delta_content = Some ([0xE1] @ js '', ''), finish_reason = None\<rparr>,
      Some \<lparr>delta_content = Some (js ''mundo''), finish_reason = None\<rparr>]"

definition example_finish :: choice where
  "example_finish = \<lparr>delta_content = None, finish_reason = Some (js ''stop'')\<rparr>"

definition example_backend :: backend where
  "example_backend cr = Inr (map Part (example_chunks @ [Some example_finish]))"

definition example_user :: chat_message where
  "example_user = \<lparr>msg_role = js ''user'', msg_content = js ''oi''\<rparr>"

definition no_args :: tool_args where
  "no_args = \<lparr>arg_path = None, arg_content = None, arg_approve = None, arg_diff = None,
               arg_pattern = None, arg_cwd = None, arg_maxBytes = None, arg_maxMatches = None\<rparr>"

section \<open>The path guard compares strings, not segments\<close>

text \<open>
  C1. The specification asks that every relative path whose resolution lies outside the
  workspace root be refused with a path-escape error. With the root \<open>/ws\<close>, the relative
  path \<open>../ws-evil/x\<close> resolves to \<open>/ws-evil/x\<close>, which is outside \<open>/ws\<close>; its text
  begins with the text of the root, so \<open>resolveSafe\<close> returns it instead of failing.
\<close>

theorem resolveSafe_accepts_sibling_of_root:
  "WORKSPACE_ROOT \<lparr>cwd = js ''/srv'', env_WORKSPACE_ROOT = Some (js ''/ws'')\<rparr> = js ''/ws''
   \<and> resolveSafe \<lparr>cwd = js ''/srv'', env_WORKSPACE_ROOT = Some (js ''/ws'')\<rparr>
        (Some (js ''../ws-evil/x'')) = Inr (js ''/ws-evil/x'')
   \<and> \<not> within_root (js ''/ws'') (js ''/ws-evil/x'')"
  by code_simp

text \<open>
  What the path guard does ensure, in a process whose working directory is an absolute
  path: a path whose resolution lies within the root, segment by segment, is accepted, and what is
  returned begins with the text of the root. A resolved path is refused exactly when its
  text does not begin with the text of the root.
\<close>

lemma split_on_nonempty: "split_on d xs \<noteq> []"
  by (induction xs) (auto split: list.splits)

lemma split_on_free: "s \<in> set (split_on d xs) \<Longrightarrow> d \<notin> set s"
proof (induction xs arbitrary: s)
  case Nil
  then show ?case by simp
next
  case (Cons x xs)
  show ?case
  proof (cases "x = d")
    case True
    with Cons show ?thesis by auto
  next
    case False
    obtain t ts where sp: "split_on d xs = t # ts"
      using split_on_nonempty [of d xs] by (cases "split_on d xs") auto
    with Cons.IH have "d \<notin> set t" and "\<And>u. u \<in> set ts \<Longrightarrow> d \<notin> set u" by auto
    with Cons.prems False sp show ?thesis by auto
  qed
qed

lemma norm_segs_subset:
  "set (norm_segs a ss acc) \<subseteq> set acc \<union> {s \<in> set ss. s \<noteq> []}"
proof (induction a ss acc rule: norm_segs.induct)
  case (1 a acc)
  then show ?case by simp
next
  case (2 a s ss acc)
  have ne: "js ''..'' \<noteq> []" by (simp add: js_def)
  show ?case
  proof (cases "s = [] \<or> s = js ''.''")
    case True
    with 2 show ?thesis by auto
  next
    case False
    show ?thesis
    proof (cases "s = js ''..''")
      case dd: True
      show ?thesis
      proof (cases acc)
        case Nil
        with 2(2) [OF False dd Nil] False dd ne show ?thesis by (auto split: if_splits)
      next
        case (Cons t ts)
        show ?thesis
        proof (cases "t = js ''..''")
          case True
          with 2(3) [OF False dd Cons True] False dd Cons ne show ?thesis
            by (auto split: if_splits)
        next
          case F: False
          with 2(4) [OF False dd Cons F] False dd Cons show ?thesis by auto
        qed
      qed
    next
      case nd: False
      with 2(5) [OF False nd] False show ?thesis by auto
    qed
  qed
qed

lemma split_on_join:
  "segs \<noteq> [] \<Longrightarrow> \<forall>s \<in> set segs. d \<notin> set s \<Longrightarrow> split_on d (join_with d segs) = segs"
proof (induction d segs rule: join_with.induct)
  case (1 d)
  then show ?case by simp
next
  case (2 d s)
  then have "d \<notin> set s" by simp
  then have "split_on d s = [s]"
    by (induction s) (auto split: list.splits)
  then show ?case by simp
next
  case (3 d s t ss)
  then have ih: "split_on d (join_with d (t # ss)) = t # ss" by simp
  from 3 have "d \<notin> set s" by simp
  then have "split_on d (s @ d # join_with d (t # ss)) = s # split_on d (join_with d (t # ss))"
    by (induction s) (auto split: list.splits)
  with ih show ?case by simp
qed

lemma segments_render:
  assumes "\<forall>s \<in> set segs. s \<noteq> [] \<and> slash \<notin> set s"
  shows "segments (slash # join_with slash segs) = segs"
proof (cases segs)
  case Nil
  then show ?thesis by (simp add: segments_def)
next
  case (Cons s ss)
  with assms have "split_on slash (join_with slash segs) = segs"
    by (intro split_on_join) auto
  moreover from assms have "filter (\<lambda>s. s \<noteq> []) segs = segs"
    by (induction segs) auto
  ultimately show ?thesis by (simp add: segments_def)
qed

lemma join_with_Cons: "ys \<noteq> [] \<Longrightarrow> join_with d (s # ys) = s @ d # join_with d ys"
  by (cases ys) simp_all

lemma join_with_append:
  "join_with d (xs @ ys)
     = (if xs = [] then join_with d ys else if ys = [] then join_with d xs
        else join_with d xs @ d # join_with d ys)"
  by (induction d xs rule: join_with.induct) (auto simp: join_with_Cons)

lemma prefix_render:
  "prefix rs ps \<Longrightarrow> prefix (slash # join_with slash rs) (slash # join_with slash ps)"
  by (auto simp: prefix_def join_with_append)

lemma resolve_loop_absolute:
  "\<exists>p \<in> set ps. p \<noteq> [] \<and> hd p = slash \<Longrightarrow> snd (resolve_loop ps acc)"
  by (induction ps acc rule: resolve_loop.induct) auto

lemma path_resolve_absolute:
  assumes "\<exists>p \<in> set (args @ [wd]). p \<noteq> [] \<and> hd p = slash"
  shows "\<exists>segs. path_resolve wd args = slash # join_with slash segs
               \<and> (\<forall>s \<in> set segs. s \<noteq> [] \<and> slash \<notin> set s)"
proof -
  obtain rp ab where r: "resolve_loop (rev args @ [wd]) [] = (rp, ab)"
    by (cases "resolve_loop (rev args @ [wd]) []")
  from assms have "\<exists>p \<in> set (rev args @ [wd]). p \<noteq> [] \<and> hd p = slash" by auto
  from resolve_loop_absolute [OF this, of "[]"] r have ab by simp
  let ?segs = "norm_segs False (split_on slash rp) []"
  have "\<forall>s \<in> set ?segs. s \<noteq> [] \<and> slash \<notin> set s"
    using norm_segs_subset [of False "split_on slash rp" "[]"] split_on_free [of _ slash rp]
    by auto
  moreover from r \<open>ab\<close> have "path_resolve wd args = slash # join_with slash ?segs"
    by (simp add: path_resolve_def normalizeString_def)
  ultimately show ?thesis by blast
qed

lemma resolveSafe_within_root:
  assumes "cwd pe \<noteq> []" and "hd (cwd pe) = slash"
      and "within_root (WORKSPACE_ROOT pe)
             (path_resolve (cwd pe) [WORKSPACE_ROOT pe, or_default relPath (js ''.'')])"
  shows "resolveSafe pe relPath
           = Inr (path_resolve (cwd pe) [WORKSPACE_ROOT pe, or_default relPath (js ''.'')])
         \<and> prefix (WORKSPACE_ROOT pe)
               (path_resolve (cwd pe) [WORKSPACE_ROOT pe, or_default relPath (js ''.'')])"
proof -
  let ?full = "path_resolve (cwd pe) [WORKSPACE_ROOT pe, or_default relPath (js ''.'')]"
  from assms(1,2) obtain rs where
    root: "WORKSPACE_ROOT pe = slash # join_with slash rs" and
    rs: "\<forall>s \<in> set rs. s \<noteq> [] \<and> slash \<notin> set s"
    using path_resolve_absolute [of "[or_default (env_WORKSPACE_ROOT pe) (cwd pe)]" "cwd pe"]
    by (auto simp: WORKSPACE_ROOT_def)
  from assms(1,2) obtain ps where
    full: "?full = slash # join_with slash ps" and
    ps: "\<forall>s \<in> set ps. s \<noteq> [] \<and> slash \<notin> set s"
    using path_resolve_absolute [of "[WORKSPACE_ROOT pe, or_default relPath (js ''.'')]" "cwd pe"]
    by auto
  from assms(3) root full rs ps have "prefix rs ps"
    by (simp add: within_root_def segments_render)
  then have "prefix (WORKSPACE_ROOT pe) ?full"
    using root full prefix_render by simp
  then show ?thesis by (simp add: resolveSafe_def Let_def)
qed

lemma resolveSafe_escape_iff:
  "resolveSafe pe relPath = Inl e \<longleftrightarrow>
     e = PathEscape \<and> \<not> prefix (WORKSPACE_ROOT pe)
                           (path_resolve (cwd pe) [WORKSPACE_ROOT pe, or_default relPath (js ''.'')])"
  by (auto simp: resolveSafe_def Let_def)

section \<open>Dry runs never write\<close>





section \<open>Patches that do not apply\<close>

text \<open>
  C3, as the specification states it: a patch that does not apply yields a failure that
  carries a reason, with or without approval. Without approval the answer for the patch of
  the example, which does not apply to \<open>a.txt\<close>, is a dry-run record with
  \<open>canApply = false\<close> and a null preview; it has no \<open>error\<close> and no \<open>reason\<close>.
\<close>

theorem applyUnifiedPatch_dry_run_gives_no_reason:
  "applyPatch example_libs (js ''hello'' @ nl @ js ''Hello world'' @ nl) example_patch = Inr None
   \<and> applyUnifiedPatch example_libs example_env example_fs (js ''a.txt'') example_patch False
       = (Inr (JObj [(''dryRun'', JBool True), (''canApply'', JBool False), (''preview'', JNull)]), example_fs)
   \<and> field (JObj [(''dryRun'', JBool True), (''canApply'', JBool False), (''preview'', JNull)]) ''error'' = JUndef
   \<and> field (JObj [(''dryRun'', JBool True), (''canApply'', JBool False), (''preview'', JNull)]) ''reason'' = JUndef"
  by (simp add: applyUnifiedPatch_def example_libs_def example_env_def example_fs_def example_patch_def
        resolveSafe_def WORKSPACE_ROOT_def path_resolve_def normalizeString_def or_default_def
        read_before_def existsSync_def readFileSync_def field_def js_def slash_def nl_def)

text \<open>
  C3, amended: when the path resolves, the text before can be read and the library reports
  that the patch does not apply, an approved call answers
  \<open>{dryRun: false, applied: false, error: 'Failed to apply patch.'}\<close> and a call without
  approval answers \<open>{dryRun: true, canApply: false, preview: null}\<close>; in both cases the
  file system is left as it was.
\<close>

theorem applyUnifiedPatch_rejected:
  assumes "resolveSafe pe (Some relPath) = Inr p"
      and "read_before fs p = Inr before"
      and "applyPatch L before unified = Inr None"
  shows "applyUnifiedPatch L pe fs relPath unified approve
           = (Inr (if approve
                   then JObj [(''dryRun'', JBool False), (''applied'', JBool False),
                              (''error'', JStr (js ''Failed to apply patch.''))]
                   else JObj [(''dryRun'', JBool True), (''canApply'', JBool False), (''preview'', JNull)]),
              fs)"
  using assms by (simp add: applyUnifiedPatch_def)

theorem applyUnifiedPatch_rejected_witness:
  "applyUnifiedPatch example_libs example_env example_fs (js ''a.txt'') example_patch True
     = (Inr (JObj [(''dryRun'', JBool False), (''applied'', JBool False),
                   (''error'', JStr (js ''Failed to apply patch.''))]), example_fs)
   \<and> applyUnifiedPatch example_libs example_env example_fs (js ''a.txt'') example_patch False
     = (Inr (JObj [(''dryRun'', JBool True), (''canApply'', JBool False), (''preview'', JNull)]), example_fs)"
proof -
  have h1: "resolveSafe example_env (Some (js ''a.txt'')) = Inr (js ''/ws/a.txt'')"
    by code_simp
  have h2: "read_before example_fs (js ''/ws/a.txt'') = Inr (js ''hello'' @ nl @ js ''Hello world'' @ nl)"
    by code_simp
  have h3: "applyPatch example_libs (js ''hello'' @ nl @ js ''Hello world'' @ nl) example_patch = Inr None"
    by code_simp
  from applyUnifiedPatch_rejected [OF h1 h2 h3, of True] applyUnifiedPatch_rejected [OF h1 h2 h3, of False]
  show ?thesis by simp
qed

text \<open>
  C4. A file holds the text \<open>C\<close> and the patch does not apply to \<open>C\<close>: the approved call
  returns the failure record and the file system it leaves is the one it found, so the
  file still holds \<open>C\<close>.
\<close>

theorem applyUnifiedPatch_conflict_leaves_file:
  assumes "resolveSafe pe (Some relPath) = Inr p"
      and "fs p = Some (File C)"
      and "applyPatch L C unified = Inr None"
  shows "\<exists>r. applyUnifiedPatch L pe fs relPath unified True = (Inr r, fs)
             \<and> field r ''applied'' = JBool False
             \<and> field r ''error'' = JStr (js ''Failed to apply patch.'')
             \<and> fs p = Some (File C)"
  using assms
  by (simp add: applyUnifiedPatch_def read_before_def existsSync_def readFileSync_def field_def)

theorem applyUnifiedPatch_conflict_leaves_file_witness:
  "snd (applyUnifiedPatch example_libs example_env example_fs (js ''a.txt'') example_patch True) = example_fs
   \<and> field (projr (fst (applyUnifiedPatch example_libs example_env example_fs (js ''a.txt'') example_patch True)))
        ''applied'' = JBool False
   \<and> example_fs (js ''/ws/a.txt'') = Some (File (js ''hello'' @ nl @ js ''Hello world'' @ nl))"
proof -
  have h1: "resolveSafe example_env (Some (js ''a.txt'')) = Inr (js ''/ws/a.txt'')"
    by code_simp
  have h2: "example_fs (js ''/ws/a.txt'') = Some (File (js ''hello'' @ nl @ js ''Hello world'' @ nl))"
    by code_simp
  have h3: "applyPatch example_libs (js ''hello'' @ nl @ js ''Hello world'' @ nl) example_patch = Inr None"
    by code_simp
  from applyUnifiedPatch_conflict_leaves_file [where fs = example_fs and p = "js ''/ws/a.txt''", OF h1 h2 h3] h2
  show ?thesis by auto
qed

section \<open>Truncated reads\<close>

text \<open>
  C5. A read that exceeds \<open>maxBytes\<close> should return exactly \<open>maxBytes\<close> bytes of the
  file. The limit is compared with the byte length of the text but the text is cut with
  \<open>slice\<close>, which counts code units: a file of three letters \<open>e\<close> with acute accent
  (six bytes) read with \<open>maxBytes = 2\<close> comes back as two letters, four bytes.
\<close>

theorem readFile_truncates_by_code_units:
  "readFile example_env (example_fs(js ''/ws/e.txt'' \<mapsto> File [0xE9, 0xE9, 0xE9])) (Some (js ''e.txt'')) (Some 2)
     = Inr (JObj [(''truncated'', JBool True), (''content'', JStr [0xE9, 0xE9]), (''totalBytes'', JNum 6)])
   \<and> byteLength [0xE9, 0xE9] = 4"
  by code_simp

text \<open>
  What does hold of a read: \<open>totalBytes\<close> is the byte length of the text, \<open>truncated\<close>
  says whether it exceeds the limit, and a text within the limit comes back whole. For a
  text of code units below \<open>0x80\<close>, where bytes and code units coincide, and a positive
  limit, the truncated content has exactly \<open>maxBytes\<close> bytes.
\<close>

lemma ascii_not_surrogate: "c < 0x80 \<Longrightarrow> \<not> high_surrogate (c :: 16 word)"
  unfolding high_surrogate_def by (simp add: word_less_nat_alt word_le_nat_alt)

lemma byteLength_ascii: "\<forall>c \<in> set data. c < 0x80 \<Longrightarrow> byteLength data = length data"
  by (induction data rule: byteLength.induct) (simp_all add: unit_bytes_def ascii_not_surrogate)

lemma readFile_ascii:
  assumes "resolveSafe pe relPath = Inr p"
      and "fs p = Some (File data)"
      and "\<forall>c \<in> set data. c < 0x80"
      and "0 < maxBytes"
  shows "readFile pe fs relPath (Some maxBytes)
           = Inr (if int (length data) > maxBytes
                  then JObj [(''truncated'', JBool True), (''content'', JStr (take (nat maxBytes) data)),
                             (''totalBytes'', JNum (int (length data)))]
                  else JObj [(''truncated'', JBool False), (''content'', JStr data),
                             (''totalBytes'', JNum (int (length data)))])
         \<and> (int (length data) > maxBytes \<longrightarrow> int (byteLength (take (nat maxBytes) data)) = maxBytes)"
proof -
  from assms(3) have "\<forall>c \<in> set (take (nat maxBytes) data). c < 0x80"
    by (auto dest: in_set_takeD)
  then have "byteLength (take (nat maxBytes) data) = length (take (nat maxBytes) data)"
    by (rule byteLength_ascii)
  with assms byteLength_ascii [OF assms(3)] show ?thesis
    by (auto simp: readFile_def readFileSync_def maxBytes_of_def slice0_def Let_def)
qed

lemma readFile_totalBytes:
  assumes "resolveSafe pe relPath = Inr p" and "fs p = Some (File data)"
  shows "\<exists>r. readFile pe fs relPath m = Inr r
             \<and> field r ''totalBytes'' = JNum (int (byteLength data))
             \<and> field r ''truncated'' = JBool (int (byteLength data) > maxBytes_of m)
             \<and> (int (byteLength data) \<le> maxBytes_of m \<longrightarrow> field r ''content'' = JStr data)"
  using assms by (simp add: readFile_def readFileSync_def field_def Let_def)

section \<open>The envelope of the dispatcher\<close>

lemma respond_cases:
  "(\<exists>v. respond r = \<lparr>status = 200, body = JObj [(''ok'', JBool True), (''result'', v)]\<rparr>)
   \<or> (\<exists>m. respond r = \<lparr>status = 500, body = JObj [(''error'', JStr m)]\<rparr>)"
  by (cases r) (simp_all add: respond_def)

lemma envelope_respond: "envelope (respond r)"
  using respond_cases [of r] by (auto simp: envelope_def)

lemma envelope_bad_request: "envelope (bad_request m)"
  by (simp add: envelope_def bad_request_def)

lemma tools_envelope_aux: "envelope (fst (tools L pe fs req))"
  by (simp add: tools_def Let_def envelope_respond envelope_bad_request
        split: option.split prod.split)

text \<open>
  C6, as the specification states it: every failure is answered \<open>{ok: false, error}\<close>.
  The answer to an unknown tool name is \<open>{error: 'Unknown tool: frobnicate'}\<close> with
  status 400: it has no \<open>ok\<close> field.
\<close>

theorem tools_failure_has_no_ok_field:
  "fst (tools example_libs example_env example_fs \<lparr>req_name = Some (js ''frobnicate''), req_args = no_args\<rparr>)
     = \<lparr>status = 400, body = JObj [(''error'', JStr (js ''Unknown tool: frobnicate''))]\<rparr>
   \<and> field (body (fst (tools example_libs example_env example_fs
                           \<lparr>req_name = Some (js ''frobnicate''), req_args = no_args\<rparr>))) ''ok'' = JUndef"
  by (simp add: tools_def bad_request_def field_def js_def)

lemma tool_names_distinct:
  "js ''list_dir'' \<noteq> []" "js ''read_file'' \<noteq> []" "js ''write_file'' \<noteq> []"
  "js ''apply_patch'' \<noteq> []" "js ''glob'' \<noteq> []" "js ''grep'' \<noteq> []"
  "js ''read_file'' \<noteq> js ''list_dir''"
  "js ''write_file'' \<noteq> js ''list_dir''" "js ''write_file'' \<noteq> js ''read_file''"
  "js ''apply_patch'' \<noteq> js ''list_dir''" "js ''apply_patch'' \<noteq> js ''read_file''"
  "js ''apply_patch'' \<noteq> js ''write_file''"
  "js ''glob'' \<noteq> js ''list_dir''" "js ''glob'' \<noteq> js ''read_file''"
  "js ''glob'' \<noteq> js ''write_file''" "js ''glob'' \<noteq> js ''apply_patch''"
  "js ''grep'' \<noteq> js ''list_dir''" "js ''grep'' \<noteq> js ''read_file''"
  "js ''grep'' \<noteq> js ''write_file''" "js ''grep'' \<noteq> js ''apply_patch''"
  "js ''grep'' \<noteq> js ''glob''"
  by (simp_all add: js_def)

lemma respond_delegate: "respond r = delegate_envelope r"
  by (cases r) (simp_all add: respond_def delegate_envelope_def ok_envelope_def error_envelope_def)

lemma bad_request_error: "bad_request m = error_envelope 400 m"
  by (simp add: bad_request_def error_envelope_def)


lemma tools_no_name: "falsy (req_name req) \<Longrightarrow> tools L pe fs req = (error_envelope 400 (js ''Tool name required''), fs)"
  by (cases "req_name req") (simp_all add: tools_def Let_def falsy_def bad_request_error)

lemma tools_unknown_name: "req_name req = Some name \<Longrightarrow> name \<noteq> [] \<Longrightarrow> name \<notin> set tool_names \<Longrightarrow>
   tools L pe fs req = (error_envelope 400 (js ''Unknown tool: '' @ name), fs)"
  by (simp add: tools_def Let_def tool_names_def bad_request_error)

lemma tools_list_dir: "req_name req = Some (js ''list_dir'') \<Longrightarrow> tools L pe fs req
          = (delegate_envelope
               (listDir L pe fs (Some (case arg_path (req_args req) of None \<Rightarrow> js ''.'' | Some rel \<Rightarrow> rel))),
             fs)"
  by (cases "arg_path (req_args req)") (simp_all add: tools_def Let_def tool_names_distinct respond_delegate)

lemma tools_read_file: "req_name req = Some (js ''read_file'') \<Longrightarrow> tools L pe fs req
          = (if falsy (arg_path (req_args req)) then error_envelope 400 (js ''path required'')
             else delegate_envelope (readFile pe fs (arg_path (req_args req)) (arg_maxBytes (req_args req))),
             fs)"
  by (simp add: tools_def Let_def tool_names_distinct respond_delegate bad_request_error)

lemma approve_of_eq: "approve_of a = (a = Some True)"
  by (cases a) (simp_all add: approve_of_def)

lemma tools_write_file_args: "req_name req = Some (js ''write_file'') \<Longrightarrow>
   falsy (arg_path (req_args req)) \<or> arg_content (req_args req) = None \<Longrightarrow>
   tools L pe fs req = (error_envelope 400 (js ''path and content required''), fs)"
  by (cases "arg_path (req_args req)"; cases "arg_content (req_args req)")
     (simp_all add: tools_def Let_def tool_names_distinct bad_request_error falsy_def)

lemma tools_write_file: "req_name req = Some (js ''write_file'') \<Longrightarrow>
   arg_path (req_args req) = Some rel \<Longrightarrow> rel \<noteq> [] \<Longrightarrow> arg_content (req_args req) = Some content \<Longrightarrow>
   tools L pe fs req
                = (delegate_envelope
                     (fst (writeFile L pe fs rel content (arg_approve (req_args req) = Some True))),
                   snd (writeFile L pe fs rel content (arg_approve (req_args req) = Some True)))"
  by (simp add: tools_def Let_def tool_names_distinct respond_delegate approve_of_eq split_beta)

lemma tools_apply_patch_args: "req_name req = Some (js ''apply_patch'') \<Longrightarrow>
   falsy (arg_path (req_args req)) \<or> arg_diff (req_args req) = None \<Longrightarrow>
   tools L pe fs req = (error_envelope 400 (js ''path and diff required''), fs)"
  by (cases "arg_path (req_args req)"; cases "arg_diff (req_args req)")
     (simp_all add: tools_def Let_def tool_names_distinct bad_request_error falsy_def)

lemma tools_apply_patch: "req_name req = Some (js ''apply_patch'') \<Longrightarrow>
   arg_path (req_args req) = Some rel \<Longrightarrow> rel \<noteq> [] \<Longrightarrow> arg_diff (req_args req) = Some unified \<Longrightarrow>
   tools L pe fs req
                = (delegate_envelope
                     (fst (applyUnifiedPatch L pe fs rel unified (arg_approve (req_args req) = Some True))),
                   snd (applyUnifiedPatch L pe fs rel unified (arg_approve (req_args req) = Some True)))"
  by (simp add: tools_def Let_def tool_names_distinct respond_delegate approve_of_eq split_beta)

lemma tools_glob: "req_name req = Some (js ''glob'') \<Longrightarrow>
        tools L pe fs req
          = (delegate_envelope
               (globSearch L pe fs
                  (case arg_pattern (req_args req) of None \<Rightarrow> js ''**/*'' | Some p \<Rightarrow> p)
                  (Some (case arg_cwd (req_args req) of None \<Rightarrow> js ''.'' | Some c \<Rightarrow> c))),
             fs)"
  by (cases "arg_cwd (req_args req)") (simp_all add: tools_def Let_def tool_names_distinct respond_delegate)

lemma tools_grep_args: "req_name req = Some (js ''grep'') \<Longrightarrow> falsy (arg_pattern (req_args req)) \<Longrightarrow>
   tools L pe fs req = (error_envelope 400 (js ''pattern required''), fs)"
  by (cases "arg_pattern (req_args req)")
     (simp_all add: tools_def Let_def tool_names_distinct bad_request_error falsy_def)

lemma tools_grep: "req_name req = Some (js ''grep'') \<Longrightarrow>
     arg_pattern (req_args req) = Some pattern \<Longrightarrow> pattern \<noteq> [] \<Longrightarrow>
              tools L pe fs req
                = (delegate_envelope
                     (grep L pe fs pattern
                        (Some (case arg_cwd (req_args req) of None \<Rightarrow> js ''.'' | Some c \<Rightarrow> c))
                        (arg_maxMatches (req_args req))),
                   fs)"
  by (cases "arg_cwd (req_args req)") (simp_all add: tools_def Let_def tool_names_distinct respond_delegate)

text \<open>
  C6, amended: every request is answered by the handler itself. A request without a tool
  name, with an unknown tool name or without a required argument is answered with status
  400 and \<open>{error: message}\<close>, and the file system is not touched. Otherwise the tool is
  called with the arguments of the request and their defaults: when it returns, the answer
  is status 200 and \<open>{ok: true, result}\<close> around what it returned; when it throws, be it
  the path guard, the file system or a library, the answer is status 500 and
  \<open>{error: message}\<close> with the message of what was thrown. No answer to a failure has
  an \<open>ok\<close> field.
\<close>

theorem tools_envelope:
  "(falsy (req_name req) \<longrightarrow>
      tools L pe fs req = (error_envelope 400 (js ''Tool name required''), fs))
   \<and> (\<forall>name. req_name req = Some name \<longrightarrow> name \<noteq> [] \<longrightarrow> name \<notin> set tool_names \<longrightarrow>
        tools L pe fs req = (error_envelope 400 (js ''Unknown tool: '' @ name), fs))
   \<and> (req_name req = Some (js ''list_dir'') \<longrightarrow>
        tools L pe fs req
          = (delegate_envelope
               (listDir L pe fs (Some (case arg_path (req_args req) of None \<Rightarrow> js ''.'' | Some rel \<Rightarrow> rel))),
             fs))
   \<and> (req_name req = Some (js ''read_file'') \<longrightarrow>
        tools L pe fs req
          = (if falsy (arg_path (req_args req)) then error_envelope 400 (js ''path required'')
             else delegate_envelope (readFile pe fs (arg_path (req_args req)) (arg_maxBytes (req_args req))),
             fs))
   \<and> (req_name req = Some (js ''write_file'') \<longrightarrow>
        (falsy (arg_path (req_args req)) \<or> arg_content (req_args req) = None \<longrightarrow>
           tools L pe fs req = (error_envelope 400 (js ''path and content required''), fs))
        \<and> (\<forall>rel content.
              arg_path (req_args req) = Some rel \<longrightarrow> rel \<noteq> [] \<longrightarrow>
              arg_content (req_args req) = Some content \<longrightarrow>
              tools L pe fs req
                = (delegate_envelope
                     (fst (writeFile L pe fs rel content (arg_approve (req_args req) = Some True))),
                   snd (writeFile L pe fs rel content (arg_approve (req_args req) = Some True)))))
   \<and> (req_name req = Some (js ''apply_patch'') \<longrightarrow>
        (falsy (arg_path (req_args req)) \<or> arg_diff (req_args req) = None \<longrightarrow>
           tools L pe fs req = (error_envelope 400 (js ''path and diff required''), fs))
        \<and> (\<forall>rel unified.
              arg_path (req_args req) = Some rel \<longrightarrow> rel \<noteq> [] \<longrightarrow>
              arg_diff (req_args req) = Some unified \<longrightarrow>
              tools L pe fs req
                = (delegate_envelope
                     (fst (applyUnifiedPatch L pe fs rel unified (arg_approve (req_args req) = Some True))),
                   snd (applyUnifiedPatch L pe fs rel unified (arg_approve (req_args req) = Some True)))))
   \<and> (req_name req = Some (js ''glob'') \<longrightarrow>
        tools L pe fs req
          = (delegate_envelope
               (globSearch L pe fs
                  (case arg_pattern (req_args req) of None \<Rightarrow> js ''**/*'' | Some p \<Rightarrow> p)
                  (Some (case arg_cwd (req_args req) of None \<Rightarrow> js ''.'' | Some c \<Rightarrow> c))),
             fs))
   \<and> (req_name req = Some (js ''grep'') \<longrightarrow>
        (falsy (arg_pattern (req_args req)) \<longrightarrow>
           tools L pe fs req = (error_envelope 400 (js ''pattern required''), fs))
        \<and> (\<forall>pattern.
              arg_pattern (req_args req) = Some pattern \<longrightarrow> pattern \<noteq> [] \<longrightarrow>
              tools L pe fs req
                = (delegate_envelope
                     (grep L pe fs pattern
                        (Some (case arg_cwd (req_args req) of None \<Rightarrow> js ''.'' | Some c \<Rightarrow> c))
                        (arg_maxMatches (req_args req))),
                   fs)))
   \<and> ((\<exists>v. fst (tools L pe fs req) = \<lparr>status = 200, body = JObj [(''ok'', JBool True), (''result'', v)]\<rparr>)
       \<or> (\<exists>m. fst (tools L pe fs req) = \<lparr>status = 400, body = JObj [(''error'', JStr m)]\<rparr>)
       \<or> (\<exists>m. fst (tools L pe fs req) = \<lparr>status = 500, body = JObj [(''error'', JStr m)]\<rparr>))"
proof (intro conjI impI allI)
  show "(\<exists>v. fst (tools L pe fs req) = \<lparr>status = 200, body = JObj [(''ok'', JBool True), (''result'', v)]\<rparr>)
       \<or> (\<exists>m. fst (tools L pe fs req) = \<lparr>status = 400, body = JObj [(''error'', JStr m)]\<rparr>)
       \<or> (\<exists>m. fst (tools L pe fs req) = \<lparr>status = 500, body = JObj [(''error'', JStr m)]\<rparr>)"
    using tools_envelope_aux [of L pe fs req] by (simp add: envelope_def)
qed (rule tools_no_name tools_unknown_name tools_list_dir tools_read_file tools_write_file_args
          tools_write_file tools_apply_patch_args tools_apply_patch tools_glob tools_grep_args
          tools_grep; assumption)+

theorem tools_envelope_witness:
  "tools example_libs example_env example_fs
     \<lparr>req_name = Some (js ''read_file''), req_args = no_args\<lparr>arg_path := Some (js ''missing.txt'')\<rparr>\<rparr>
     = (\<lparr>status = 500,
         body = JObj [(''error'', JStr (js ''ENOENT: no such file or directory, open '' @ [0x27]
                                         @ js ''/ws/missing.txt'' @ [0x27]))]\<rparr>,
        example_fs)
   \<and> tools example_libs example_env example_fs
     \<lparr>req_name = Some (js ''read_file''), req_args = no_args\<lparr>arg_path := Some (js ''.'')\<rparr>\<rparr>
     = (\<lparr>status = 500,
         body = JObj [(''error'', JStr (js ''EISDIR: illegal operation on a directory, read''))]\<rparr>,
        example_fs)
   \<and> tools example_libs example_env example_fs
     \<lparr>req_name = Some (js ''read_file''), req_args = no_args\<lparr>arg_path := Some (js ''a.txt/x'')\<rparr>\<rparr>
     = (\<lparr>status = 500,
         body = JObj [(''error'', JStr (js ''ENOTDIR: not a directory, open '' @ [0x27]
                                         @ js ''/ws/a.txt/x'' @ [0x27]))]\<rparr>,
        example_fs)
   \<and> tools example_libs example_env example_fs
     \<lparr>req_name = Some (js ''read_file''), req_args = no_args\<lparr>arg_path := Some (js ''../etc/passwd'')\<rparr>\<rparr>
     = (\<lparr>status = 500, body = JObj [(''error'', JStr (js ''Path escapes workspace root''))]\<rparr>, example_fs)
   \<and> tools example_libs example_env example_fs
     \<lparr>req_name = Some (js ''read_file''), req_args = no_args\<rparr>
     = (\<lparr>status = 400, body = JObj [(''error'', JStr (js ''path required''))]\<rparr>, example_fs)
   \<and> tools example_libs example_env example_fs
     \<lparr>req_name = Some (js ''read_file''), req_args = no_args\<lparr>arg_path := Some (js ''b.txt'')\<rparr>\<rparr>
     = (\<lparr>status = 200,
         body = JObj [(''ok'', JBool True),
                      (''result'', JObj [(''truncated'', JBool False), (''content'', JStr (js ''old'' @ nl)),
                                         (''totalBytes'', JNum 4)])]\<rparr>,
        example_fs)"
proof -
  let ?r = "\<lambda>p. \<lparr>req_name = Some (js ''read_file''), req_args = no_args\<lparr>arg_path := p\<rparr>\<rparr>"
  have n: "\<And>p. req_name (?r p) = Some (js ''read_file'')" by simp
  have a: "\<And>p. arg_path (req_args (?r p)) = p" "\<And>p. arg_maxBytes (req_args (?r p)) = None"
    by (simp_all add: no_args_def)
  have f: "\<not> falsy (Some (js ''missing.txt''))" "\<not> falsy (Some (js ''.''))" "\<not> falsy (Some (js ''a.txt/x''))"
          "\<not> falsy (Some (js ''../etc/passwd''))" "\<not> falsy (Some (js ''b.txt''))" "falsy None"
    by (simp_all add: falsy_def js_def)
  have r1: "readFile example_env example_fs (Some (js ''missing.txt'')) None
              = Inl (SystemError ENOENT ''open'' (Some (js ''/ws/missing.txt'')))"
    by code_simp
  have r2: "readFile example_env example_fs (Some (js ''.'')) None = Inl (SystemError EISDIR ''read'' None)"
    by code_simp
  have r3: "readFile example_env example_fs (Some (js ''a.txt/x'')) None
              = Inl (SystemError ENOTDIR ''open'' (Some (js ''/ws/a.txt/x'')))"
    by code_simp
  have r4: "readFile example_env example_fs (Some (js ''../etc/passwd'')) None = Inl PathEscape"
    by code_simp
  have r5: "readFile example_env example_fs (Some (js ''b.txt'')) None
              = Inr (JObj [(''truncated'', JBool False), (''content'', JStr (js ''old'' @ nl)),
                           (''totalBytes'', JNum 4)])"
    by code_simp
  note rf = tools_envelope [where L = example_libs and pe = example_env and fs = example_fs,
                THEN conjunct2, THEN conjunct2, THEN conjunct2, THEN conjunct1, rule_format, OF n]
  have "tools example_libs example_env example_fs (?r (Some (js ''missing.txt'')))
          = (error_envelope 500 (js ''ENOENT: no such file or directory, open '' @ [0x27]
                                   @ js ''/ws/missing.txt'' @ [0x27]), example_fs)"
    using rf [of "Some (js ''missing.txt'')"] a f r1 by (simp add: delegate_envelope_def js_def)
  moreover have "tools example_libs example_env example_fs (?r (Some (js ''.'')))
          = (error_envelope 500 (js ''EISDIR: illegal operation on a directory, read''), example_fs)"
    using rf [of "Some (js ''.'')"] a f r2 by (simp add: delegate_envelope_def js_def)
  moreover have "tools example_libs example_env example_fs (?r (Some (js ''a.txt/x'')))
          = (error_envelope 500 (js ''ENOTDIR: not a directory, open '' @ [0x27]
                                   @ js ''/ws/a.txt/x'' @ [0x27]), example_fs)"
    using rf [of "Some (js ''a.txt/x'')"] a f r3 by (simp add: delegate_envelope_def js_def)
  moreover have "tools example_libs example_env example_fs (?r (Some (js ''../etc/passwd'')))
          = (error_envelope 500 (js ''Path escapes workspace root''), example_fs)"
    using rf [of "Some (js ''../etc/passwd'')"] a f r4 by (simp add: delegate_envelope_def)
  moreover have "tools example_libs example_env example_fs (?r None)
          = (error_envelope 400 (js ''path required''), example_fs)"
    using rf [of None] a f by simp
  moreover have "tools example_libs example_env example_fs (?r (Some (js ''b.txt'')))
          = (ok_envelope (JObj [(''truncated'', JBool False), (''content'', JStr (js ''old'' @ nl)),
                                (''totalBytes'', JNum 4)]), example_fs)"
    using rf [of "Some (js ''b.txt'')"] a f r5 by (simp add: delegate_envelope_def)
  moreover have "no_args\<lparr>arg_path := None\<rparr> = no_args"
    by (simp add: no_args_def)
  ultimately show ?thesis
    by (simp add: ok_envelope_def error_envelope_def)
qed

section \<open>The streaming proxy\<close>




lemma consume_unfinished:
  "\<forall>c \<in> set cs. unfinished c \<Longrightarrow>
   consume (map Part cs @ rest) fullText evs
     = consume rest (fullText @ concat (texts cs)) (evs @ map token (texts cs))"
proof (induction cs arbitrary: fullText evs)
  case Nil
  then show ?case by simp
next
  case (Cons c cs)
  show ?case
  proof (cases c)
    case None
    with Cons show ?thesis by simp
  next
    case (Some ch)
    with Cons.prems have f: "falsy (finish_reason ch)" by (simp add: unfinished_def)
    from Cons.prems have "\<forall>c \<in> set cs. unfinished c" by simp
    note ih = Cons.IH [OF this]
    show ?thesis
    proof (cases "falsy (delta_content ch)")
      case True
      with Some f ih show ?thesis by simp
    next
      case False
      with Some f ih show ?thesis by (simp add: token_def)
    qed
  qed
qed

lemma consume_finish:
  "\<not> falsy (finish_reason fin) \<Longrightarrow>
   consume (Part (Some fin) # rest) fullText evs
     = (Inr (fullText @ concat (texts [Some fin])), evs @ map token (texts [Some fin]))"
  by (simp add: token_def)

text \<open>
  C8. The backend streams parts of which only the last carries a finish reason: the events
  are one \<open>token\<close> for each part that carries content, in the order of the parts, and
  then one \<open>done\<close> whose message is the concatenation of the token texts.
\<close>

theorem chat_stream_tokens_then_done:
  assumes "messages req = Some ms"
      and "\<forall>c \<in> set cs. unfinished c"
      and "\<not> falsy (finish_reason fin)"
  shows "sse_events (chat_stream (\<lambda>cr. Inr (map Part (cs @ [Some fin]))) req)
           = map token (texts (cs @ [Some fin])) @ [done_event (concat (texts (cs @ [Some fin])))]"
proof -
  have t: "texts (cs @ [Some fin]) = texts cs @ texts [Some fin]"
    by (induction cs rule: texts.induct) simp_all
  have "consume (map Part (cs @ [Some fin])) [] []
          = (Inr (concat (texts cs) @ concat (texts [Some fin])), map token (texts cs) @ map token (texts [Some fin]))"
    using consume_unfinished [OF assms(2), of "[Part (Some fin)]" "[]" "[]"] consume_finish [OF assms(3)]
    by simp
  with assms(1) t show ?thesis
    by (simp add: chat_stream_def relay_def done_event_def)
qed

theorem chat_stream_tokens_then_done_witness:
  "sse_events (chat_stream example_backend \<lparr>messages = Some [example_user], req_model = None, req_temperature = None\<rparr>)
     = [token (js ''Ol''), token ([0xE1] @ js '', ''), token (js ''mundo''),
        done_event (js ''Ol'' @ [0xE1] @ js '', mundo'')]"
proof -
  let ?req = "\<lparr>messages = Some [example_user], req_model = None, req_temperature = None\<rparr>"
  have h1: "messages ?req = Some [example_user]" by simp
  have h2: "\<forall>c \<in> set example_chunks. unfinished c"
    by (simp add: example_chunks_def unfinished_def falsy_def)
  have h3: "\<not> falsy (finish_reason example_finish)"
    by (simp add: example_finish_def falsy_def js_def)
  have b: "example_backend = (\<lambda>cr. Inr (map Part (example_chunks @ [Some example_finish])))"
    by (rule ext) (simp add: example_backend_def)
  have tx: "texts (example_chunks @ [Some example_finish]) = [js ''Ol'', [0xE1] @ js '', '', js ''mundo'']"
    by (simp add: example_chunks_def example_finish_def falsy_def js_def)
  from chat_stream_tokens_then_done [OF h1 h2 h3] b tx show ?thesis by (simp add: js_def)
qed

section \<open>Searching\<close>

lemma grep_loop_take:
  "0 \<le> m \<Longrightarrow>
   take (nat m) (grep_loop L pe fs pattern wd m files out)
     = take (nat m) (out @ concat (file_records L pe fs pattern wd files))"
proof (induction files arbitrary: out)
  case Nil
  then show ?case by (simp add: file_records_def)
next
  case (Cons f files)
  show ?case
  proof (cases "readFileSync fs (path_join [wd, f])")
    case (Inl e)
    with Cons show ?thesis by (simp add: file_records_def)
  next
    case (Inr data)
    let ?out' = "out @ file_matches L pe pattern (path_join [wd, f]) data"
    show ?thesis
    proof (cases "int (length ?out') \<ge> m")
      case True
      then have "nat m \<le> length ?out'" by simp
      then have "take (nat m) (?out' @ concat (file_records L pe fs pattern wd files)) = take (nat m) ?out'"
        by simp
      with Inr True show ?thesis by (simp add: file_records_def Let_def)
    next
      case False
      with Inr Cons.IH [OF Cons.prems, of ?out'] show ?thesis
        by (simp add: file_records_def Let_def)
    qed
  qed
qed

lemma collect_capped_take:
  "length out \<le> cap \<Longrightarrow> collect_capped cap fss out = take cap (out @ concat fss)"
  by (induction cap fss out rule: collect_capped.induct) auto

text \<open>
  C9. When the directory resolves, the pattern is a regular expression and \<open>maxMatches\<close>
  (200 when absent) is not negative, \<open>grep\<close> returns what the collector of the
  specification returns, which takes the match records one at a time, file by file in the
  order the files are processed, and stops as soon as it holds \<open>maxMatches\<close> of them:
  the first \<open>maxMatches\<close> records of all, files that cannot be read contributing
  nothing, and never more than \<open>maxMatches\<close>.
\<close>

theorem grep_returns_first_matches:
  assumes "resolveSafe pe cwdRel = Inr wd"
      and "regexp_valid L pattern"
      and "fg_sync L fs [js ''**/*.*''] wd ignore_globs = Inr files"
      and "maxMatches = (case opt_maxMatches of None \<Rightarrow> 200 | Some n \<Rightarrow> n)"
      and "0 \<le> maxMatches"
  shows "\<exists>out. grep L pe fs pattern cwdRel opt_maxMatches = Inr (JArr out)
               \<and> out = collect_capped (nat maxMatches) (file_records L pe fs pattern wd files) []
               \<and> out = take (nat maxMatches) (concat (file_records L pe fs pattern wd files))
               \<and> int (length out) \<le> maxMatches"
proof -
  from assms(5) have "slice0 (grep_loop L pe fs pattern wd maxMatches files []) maxMatches
        = take (nat maxMatches) (concat (file_records L pe fs pattern wd files))"
    using grep_loop_take [OF assms(5), of L pe fs pattern wd files "[]"]
    by (simp add: slice0_def)
  with assms show ?thesis
    by (simp add: grep_def Let_def collect_capped_take)
qed

theorem grep_returns_first_matches_witness:
  "grep example_libs example_env example_fs (js ''hello'') None (Some 3)
     = Inr (JArr [JObj [(''file'', JStr (js ''a.txt'')), (''line'', JNum 1), (''text'', JStr (js ''hello''))],
                  JObj [(''file'', JStr (js ''a.txt'')), (''line'', JNum 2), (''text'', JStr (js ''Hello world''))],
                  JObj [(''file'', JStr (js ''c.txt'')), (''line'', JNum 1), (''text'', JStr (js ''say hello''))]])
   \<and> map length (file_records example_libs example_env example_fs (js ''hello'') (js ''/ws'')
                    [js ''a.txt'', js ''gone.txt'', js ''b.txt'', js ''c.txt'']) = [2, 0, 0, 2]"
proof -
  have h1: "resolveSafe example_env None = Inr (js ''/ws'')"
    by code_simp
  have h2: "regexp_valid example_libs (js ''hello'')"
    by code_simp
  have h3: "fg_sync example_libs example_fs [js ''**/*.*''] (js ''/ws'') ignore_globs
              = Inr [js ''a.txt'', js ''gone.txt'', js ''b.txt'', js ''c.txt'']"
    by code_simp
  have h4: "(3::int) = (case Some 3 of None \<Rightarrow> 200 | Some n \<Rightarrow> n)"
    by simp
  have h5: "(0::int) \<le> 3"
    by simp
  have m: "file_records example_libs example_env example_fs (js ''hello'') (js ''/ws'')
                [js ''a.txt'', js ''gone.txt'', js ''b.txt'', js ''c.txt'']
             = [[JObj [(''file'', JStr (js ''a.txt'')), (''line'', JNum 1), (''text'', JStr (js ''hello''))],
                 JObj [(''file'', JStr (js ''a.txt'')), (''line'', JNum 2), (''text'', JStr (js ''Hello world''))]],
                [], [],
                [JObj [(''file'', JStr (js ''c.txt'')), (''line'', JNum 1), (''text'', JStr (js ''say hello''))],
                 JObj [(''file'', JStr (js ''c.txt'')), (''line'', JNum 2), (''text'', JStr (js ''HELLO''))]]]"
    by code_simp
  from grep_returns_first_matches [OF h1 h2 h3 h4 h5] m
  show ?thesis by simp
qed

section \<open>The grounded streaming proxy\<close>




end
